theory Spec2Isabelle
  imports Complex_Main
begin

section \<open>Errors (src/Web/Backend/src/utils/errorHandler.js)\<close>

text \<open>
  A thrown JavaScript error. \<open>statusCode\<close> and \<open>code\<close> are absent on errors that are
  not \<open>AppError\<close>s (library errors of the token library and of the store driver);
  \<open>isOperational\<close> is set by the \<open>AppError\<close> constructor only. The derived field
  \<open>status\<close> ('fail' / 'error'), the validation detail list \<open>errors\<close> and the stack
  trace are not part of the model.
\<close>

record js_error =
  ename :: string
  emessage :: string
  statusCode :: "nat option"
  code :: "nat option"
  isOperational :: bool

definition AppError :: "string \<Rightarrow> nat \<Rightarrow> js_error" where
  "AppError msg sc =
     \<lparr>ename = ''Error'', emessage = msg, statusCode = Some sc, code = None, isOperational = True\<rparr>"

definition ValidationError :: "string \<Rightarrow> js_error" where
  "ValidationError msg = (AppError msg 400)\<lparr>ename := ''ValidationError''\<rparr>"

definition AuthError :: "string \<Rightarrow> js_error" where
  "AuthError msg = (AppError msg 401)\<lparr>ename := ''AuthError''\<rparr>"

definition AuthorizationError :: "string \<Rightarrow> js_error" where
  "AuthorizationError msg = (AppError msg 403)\<lparr>ename := ''AuthorizationError''\<rparr>"

definition NotFoundError :: "string \<Rightarrow> js_error" where
  "NotFoundError resource = (AppError (resource @ '' not found'') 404)\<lparr>ename := ''NotFoundError''\<rparr>"

definition ConflictError :: "string \<Rightarrow> js_error" where
  "ConflictError msg = (AppError msg 409)\<lparr>ename := ''ConflictError''\<rparr>"

text \<open>Errors raised by libraries: a plain \<open>Error\<close>, the two token errors, the store's
  duplicate-key error (code 11000) and the document validation error of the ODM.\<close>

definition LibError :: "string \<Rightarrow> string \<Rightarrow> js_error" where
  "LibError nm msg =
     \<lparr>ename = nm, emessage = msg, statusCode = None, code = None, isOperational = False\<rparr>"

definition DuplicateKeyError :: js_error where
  "DuplicateKeyError = (LibError ''MongoServerError'' ''E11000 duplicate key error'')\<lparr>code := Some 11000\<rparr>"

text \<open>The handlers for the store's errors build their message from fields of the
  driver's error (path, value, key); the model keeps the driver's message text.\<close>

definition handleCastErrorDB :: "js_error \<Rightarrow> js_error" where
  "handleCastErrorDB err = AppError (''Invalid '' @ emessage err) 400"

definition handleDuplicateFieldsDB :: "js_error \<Rightarrow> js_error" where
  "handleDuplicateFieldsDB err = ConflictError (emessage err @ '' already exists'')"

definition handleValidationErrorDB :: "js_error \<Rightarrow> js_error" where
  "handleValidationErrorDB err = ValidationError ''Invalid input data''"

definition handleJWTError :: js_error where
  "handleJWTError = AuthError ''Invalid token. Please log in again''"

definition handleJWTExpiredError :: js_error where
  "handleJWTExpiredError = AuthError ''Token has expired. Please log in again''"

text \<open>The response that reaches the client: HTTP status and message.\<close>

record http_response =
  res_status :: nat
  res_message :: string

definition sendErrorDev :: "js_error \<Rightarrow> http_response" where
  "sendErrorDev err =
     \<lparr>res_status = (case statusCode err of Some sc \<Rightarrow> (if sc = 0 then 500 else sc) | None \<Rightarrow> 500),
      res_message = emessage err\<rparr>"

definition sendErrorProd :: "js_error \<Rightarrow> http_response" where
  "sendErrorProd err =
     (if isOperational err
      then \<lparr>res_status = (case statusCode err of Some sc \<Rightarrow> sc | None \<Rightarrow> 500),
            res_message = emessage err\<rparr>
      else \<lparr>res_status = 500, res_message = ''Something went wrong''\<rparr>)"

text \<open>\<open>globalErrorHandler\<close>: \<open>development\<close> is \<open>NODE_ENV === 'development'\<close>. The
  handler first defaults a missing status code to 500, then either answers with the error
  as it is or rewrites the known library errors, each test in the order of the source.\<close>

definition globalErrorHandler :: "bool \<Rightarrow> js_error \<Rightarrow> http_response" where
  "globalErrorHandler development err0 =
     (let err = err0\<lparr>statusCode :=
                  (case statusCode err0 of None \<Rightarrow> Some 500
                   | Some sc \<Rightarrow> Some (if sc = 0 then 500 else sc))\<rparr>
      in if development then sendErrorDev err
         else
           let e1 = (if ename err = ''CastError'' then handleCastErrorDB err else err);
               e2 = (if code e1 = Some 11000 then handleDuplicateFieldsDB e1 else e1);
               e3 = (if ename e2 = ''ValidationError'' then handleValidationErrorDB e2 else e2);
               e4 = (if ename e3 = ''JsonWebTokenError'' then handleJWTError else e3);
               e5 = (if ename e4 = ''TokenExpiredError'' then handleJWTExpiredError else e4)
           in sendErrorProd e5)"

section \<open>Strings\<close>

text \<open>
  \<open>String.prototype.toLowerCase\<close>. On a string of ASCII characters it maps the letters
  \<open>A\<close> to \<open>Z\<close> to \<open>a\<close> to \<open>z\<close> and keeps every other character. On a string
  with a character beyond ASCII the result is given by the Unicode case tables, which
  are not part of this development: there \<open>toLowerCase\<close> is \<open>unicode_toLowerCase\<close>,
  a function about which nothing is assumed, so that whatever is proved about
  \<open>toLowerCase\<close> holds whatever the tables say.
\<close>

definition lower_char :: "char \<Rightarrow> char" where
  "lower_char c =
     (case map_of (zip ''ABCDEFGHIJKLMNOPQRSTUVWXYZ'' ''abcdefghijklmnopqrstuvwxyz'') c of
        Some l \<Rightarrow> l
      | None \<Rightarrow> c)"

definition unicode_toLowerCase :: "string \<Rightarrow> string" where
  "unicode_toLowerCase = (SOME f. True)"

definition toLowerCase :: "string \<Rightarrow> string" where
  "toLowerCase s =
     (if list_all (\<lambda>c. \<not> digit7 c) s then map lower_char s else unicode_toLowerCase s)"

text \<open>\<open>trim\<close> removes the ASCII white space (space, tab, line feed, vertical tab, form
  feed, carriage return) at both ends.\<close>

definition is_space :: "char \<Rightarrow> bool" where
  "is_space c = (c \<in> set [CHR 0x09, CHR 0x0A, CHR 0x0B, CHR 0x0C, CHR 0x0D, CHR '' ''])"

definition trim :: "string \<Rightarrow> string" where
  "trim s = rev (dropWhile is_space (rev (dropWhile is_space s)))"

section \<open>Tokens (config/jwt.js, in src/unnamed/part_006, over the jsonwebtoken library)\<close>

datatype role = RoleUser | RoleAdmin | RoleModerator

text \<open>
  The claims carried by a token. \<open>iat\<close> and \<open>exp\<close> (here \<open>exp_claim\<close>) are in seconds, the clock
  \<open>now\<close> of every operation is in milliseconds since the epoch, as \<open>Date.now()\<close>.
\<close>

record jwt_payload =
  p_id :: nat
  p_email :: "string option"
  p_role :: "role option"
  p_tokenType :: "string option"
  iat :: nat
  exp_claim :: nat
  iss :: string
  aud :: "string option"

text \<open>
  A token string. The library signs with HMAC-SHA256, which is deterministic: the compact
  serialisation is a function of the payload and the key, and two tokens are the same
  string exactly when payload and key agree. A token is therefore modelled by the pair;
  any other string is \<open>Malformed\<close>.
\<close>

datatype jwt = Signed jwt_payload string | Malformed string

record JWTManager =
  secret :: string
  refreshSecret :: string
  expiresIn :: nat
  refreshExpiresIn :: nat

record token_claims =
  c_id :: nat
  c_email :: string
  c_role :: role

record token_pair =
  accessToken :: jwt
  refreshToken :: jwt
  tp_expiresIn :: nat

text \<open>\<open>jwt.sign\<close>: the library stamps \<open>iat = floor(Date.now() / 1000)\<close> and
  \<open>exp = iat + expiresIn\<close>.\<close>

definition generateAccessToken :: "JWTManager \<Rightarrow> token_claims \<Rightarrow> nat \<Rightarrow> jwt" where
  "generateAccessToken jm payload now =
     Signed \<lparr>p_id = c_id payload, p_email = Some (c_email payload), p_role = Some (c_role payload),
             p_tokenType = None, iat = now div 1000, exp_claim = now div 1000 + expiresIn jm,
             iss = ''nba-analytics'', aud = Some ''nba-analytics-users''\<rparr> (secret jm)"

definition generateRefreshToken :: "JWTManager \<Rightarrow> token_claims \<Rightarrow> nat \<Rightarrow> jwt" where
  "generateRefreshToken jm payload now =
     Signed \<lparr>p_id = c_id payload, p_email = None, p_role = None,
             p_tokenType = Some ''refresh'', iat = now div 1000,
             exp_claim = now div 1000 + refreshExpiresIn jm,
             iss = ''nba-analytics'', aud = None\<rparr> (refreshSecret jm)"

text \<open>\<open>jwt.verify\<close>: signature, then expiry, then audience (when one is asked for),
  then issuer.\<close>

definition jwt_verify :: "jwt \<Rightarrow> string \<Rightarrow> string \<Rightarrow> string option \<Rightarrow> nat \<Rightarrow> js_error + jwt_payload" where
  "jwt_verify token key issuer audience now =
     (case token of
        Malformed s \<Rightarrow> Inl (LibError ''JsonWebTokenError'' ''jwt malformed'')
      | Signed p k \<Rightarrow>
          if k \<noteq> key then Inl (LibError ''JsonWebTokenError'' ''invalid signature'')
          else if exp_claim p \<le> now div 1000 then Inl (LibError ''TokenExpiredError'' ''jwt expired'')
          else if audience \<noteq> None \<and> aud p \<noteq> audience
            then Inl (LibError ''JsonWebTokenError'' ''jwt audience invalid'')
          else if iss p \<noteq> issuer then Inl (LibError ''JsonWebTokenError'' ''jwt issuer invalid'')
          else Inr p)"


definition verifyRefreshToken :: "JWTManager \<Rightarrow> jwt \<Rightarrow> nat \<Rightarrow> js_error + jwt_payload" where
  "verifyRefreshToken jm token now =
     (case jwt_verify token (refreshSecret jm) ''nba-analytics'' None now of
        Inl e \<Rightarrow> Inl e
      | Inr decoded \<Rightarrow>
          if p_tokenType decoded \<noteq> Some ''refresh'' then Inl (LibError ''Error'' ''Invalid token type'')
          else Inr decoded)"



section \<open>The credential store (src/Web/Backend/src/models/User.js)\<close>

record refresh_entry =
  token :: jwt
  createdAt :: nat

text \<open>A user document. \<open>password\<close> holds the hash. An unset \<open>loginAttempts\<close> reads
  as the schema default 0; \<open>lockUntil\<close> and \<open>lastLogin\<close> may be unset.\<close>

record user =
  uid :: nat
  name :: string
  email :: string
  password :: string
  role :: role
  isActive :: bool
  isVerified :: bool
  refreshTokens :: "refresh_entry list"
  lastLogin :: "nat option"
  loginAttempts :: nat
  lockUntil :: "nat option"
  passwordChangedAt :: "nat option"

text \<open>The collection, in insertion order.\<close>

type_synonym users = "user list"

text \<open>The password hash is modelled as an ideal one: \<open>bcrypt.compare\<close> accepts the
  candidate exactly when it is the password that was hashed.\<close>

definition bcrypt_hash :: "string \<Rightarrow> string" where
  "bcrypt_hash pw = ''$2a$'' @ pw"

definition bcrypt_compare :: "string \<Rightarrow> string \<Rightarrow> bool" where
  "bcrypt_compare candidate hash = (hash = bcrypt_hash candidate)"

definition isLocked :: "user \<Rightarrow> nat \<Rightarrow> bool" where
  "isLocked this now = (case lockUntil this of None \<Rightarrow> False | Some t \<Rightarrow> now < t)"

definition comparePassword :: "user \<Rightarrow> string \<Rightarrow> bool" where
  "comparePassword this candidatePassword = bcrypt_compare candidatePassword (password this)"

text \<open>\<open>updateOne\<close> and \<open>save\<close> write to the stored document with the id of the
  document in memory; the other stored documents are untouched.\<close>

definition updateOne :: "users \<Rightarrow> nat \<Rightarrow> (user \<Rightarrow> user) \<Rightarrow> users" where
  "updateOne db i f = map (\<lambda>u. if uid u = i then f u else u) db"

definition findById :: "users \<Rightarrow> nat \<Rightarrow> user option" where
  "findById db i = find (\<lambda>u. uid u = i) db"

definition findOne_email :: "users \<Rightarrow> string \<Rightarrow> user option" where
  "findOne_email db e = find (\<lambda>u. email u = e) db"

definition findByEmail :: "users \<Rightarrow> string \<Rightarrow> user option" where
  "findByEmail db e = findOne_email db (toLowerCase e)"

text \<open>\<open>incLoginAttempts\<close>: the tests read the document in memory (\<open>this\<close>), the
  update operators act on the stored document.\<close>

definition incLoginAttempts :: "users \<Rightarrow> user \<Rightarrow> nat \<Rightarrow> users" where
  "incLoginAttempts db this now =
     (if (case lockUntil this of None \<Rightarrow> False | Some t \<Rightarrow> t < now)
      then updateOne db (uid this) (\<lambda>u. u\<lparr>lockUntil := None, loginAttempts := 1\<rparr>)
      else if 5 \<le> loginAttempts this + 1 \<and> \<not> isLocked this now
        then updateOne db (uid this)
               (\<lambda>u. u\<lparr>loginAttempts := loginAttempts u + 1,
                       lockUntil := Some (now + 2 * 60 * 60 * 1000)\<rparr>)
        else updateOne db (uid this) (\<lambda>u. u\<lparr>loginAttempts := loginAttempts u + 1\<rparr>))"

definition resetLoginAttempts :: "users \<Rightarrow> user \<Rightarrow> users" where
  "resetLoginAttempts db this =
     updateOne db (uid this) (\<lambda>u. u\<lparr>loginAttempts := 0, lockUntil := None\<rparr>)"

text \<open>\<open>addRefreshToken\<close> and \<open>removeRefreshToken\<close> change the list of the document
  in memory and save it; both return the document and the store.\<close>

definition addRefreshToken :: "users \<Rightarrow> user \<Rightarrow> jwt \<Rightarrow> nat \<Rightarrow> user \<times> users" where
  "addRefreshToken db this t now =
     (let this' = this\<lparr>refreshTokens := refreshTokens this @ [\<lparr>token = t, createdAt = now\<rparr>]\<rparr>
      in (this', updateOne db (uid this) (\<lambda>u. u\<lparr>refreshTokens := refreshTokens this'\<rparr>)))"

definition removeRefreshToken :: "users \<Rightarrow> user \<Rightarrow> jwt \<Rightarrow> user \<times> users" where
  "removeRefreshToken db this t =
     (let this' = this\<lparr>refreshTokens := filter (\<lambda>rt. token rt \<noteq> t) (refreshTokens this)\<rparr>
      in (this', updateOne db (uid this) (\<lambda>u. u\<lparr>refreshTokens := refreshTokens this'\<rparr>)))"

text \<open>Schema validation of the ODM; of several failing paths the model reports the first.
  The e-mail pattern is
  \<^verbatim>\<open>^[^\s@]+@[^\s@]+\.[^\s@]+$\<close>: no white space, exactly one \<open>@\<close> with a
  non-empty part before it, and after it a dot that is neither the first nor the last
  character.\<close>

definition matches_email :: "string \<Rightarrow> bool" where
  "matches_email s =
     (let a = takeWhile (\<lambda>c. c \<noteq> CHR ''@'') s;
          r = dropWhile (\<lambda>c. c \<noteq> CHR ''@'') s;
          d = tl r
      in list_all (\<lambda>c. \<not> is_space c) s \<and> a \<noteq> [] \<and> r \<noteq> [] \<and> CHR ''@'' \<notin> set d
         \<and> CHR ''.'' \<in> set (butlast (tl d)))"

definition MongooseValidationError :: "string \<Rightarrow> js_error" where
  "MongooseValidationError msg = LibError ''ValidationError'' msg"

definition validate_name :: "string \<Rightarrow> js_error option" where
  "validate_name n =
     (if n = [] then Some (MongooseValidationError ''Name is required'')
      else if length n < 2 then Some (MongooseValidationError ''Name must be at least 2 characters'')
      else if 50 < length n then Some (MongooseValidationError ''Name must not exceed 50 characters'')
      else None)"

definition validate_email :: "string \<Rightarrow> js_error option" where
  "validate_email e =
     (if e = [] then Some (MongooseValidationError ''Email is required'')
      else if \<not> matches_email e then Some (MongooseValidationError ''Please provide a valid email'')
      else None)"

definition validate_password :: "string \<Rightarrow> js_error option" where
  "validate_password pw =
     (if pw = [] then Some (MongooseValidationError ''Password is required'')
      else if length pw < 8 then Some (MongooseValidationError ''Password must be at least 8 characters'')
      else None)"

record user_data =
  ud_name :: string
  ud_email :: string
  ud_password :: string

definition fresh_id :: "users \<Rightarrow> nat" where
  "fresh_id db = Suc (fold max (map uid db) 0)"

text \<open>\<open>new User(...)\<close>: the schema's setters trim the name and lower-case and trim the
  e-mail; the other fields take their defaults.\<close>

definition new_User :: "users \<Rightarrow> user_data \<Rightarrow> nat \<Rightarrow> user" where
  "new_User db d now =
     \<lparr>uid = fresh_id db, name = trim (ud_name d), email = trim (toLowerCase (ud_email d)),
      password = ud_password d, role = RoleUser, isActive = True, isVerified = False,
      refreshTokens = [], lastLogin = None, loginAttempts = 0, lockUntil = None,
      passwordChangedAt = Some now\<rparr>"

text \<open>\<open>save\<close> of a new document: validation, then the pre-save hook (hash the password,
  stamp \<open>passwordChangedAt\<close>), then the insert, which the unique index on \<open>email\<close>
  rejects with the duplicate-key error.\<close>

definition save_new :: "users \<Rightarrow> user \<Rightarrow> nat \<Rightarrow> js_error + (user \<times> users)" where
  "save_new db this now =
     (case validate_name (name this) of
        Some e \<Rightarrow> Inl e
      | None \<Rightarrow>
          (case validate_email (email this) of
             Some e \<Rightarrow> Inl e
           | None \<Rightarrow>
               (case validate_password (password this) of
                  Some e \<Rightarrow> Inl e
                | None \<Rightarrow>
                    (let this' = this\<lparr>password := bcrypt_hash (password this),
                                       passwordChangedAt := Some now\<rparr>
                     in if find (\<lambda>u. email u = email this') db \<noteq> None then Inl DuplicateKeyError
                        else Inr (this', db @ [this'])))))"

text \<open>\<open>toJSON\<close> drops the password and the refresh tokens and adds the virtual
  \<open>isLocked\<close>.\<close>

record user_json =
  j_id :: nat
  j_name :: string
  j_email :: string
  j_role :: role
  j_isActive :: bool
  j_isVerified :: bool
  j_lastLogin :: "nat option"
  j_loginAttempts :: nat
  j_lockUntil :: "nat option"
  j_passwordChangedAt :: "nat option"
  j_isLocked :: bool

definition toJSON :: "user \<Rightarrow> nat \<Rightarrow> user_json" where
  "toJSON this now =
     \<lparr>j_id = uid this, j_name = name this, j_email = email this, j_role = role this,
      j_isActive = isActive this, j_isVerified = isVerified this, j_lastLogin = lastLogin this,
      j_loginAttempts = loginAttempts this, j_lockUntil = lockUntil this,
      j_passwordChangedAt = passwordChangedAt this, j_isLocked = isLocked this now\<rparr>"

definition generateTokenPair :: "JWTManager \<Rightarrow> user \<Rightarrow> nat \<Rightarrow> token_pair" where
  "generateTokenPair jm u now =
     (let payload = \<lparr>c_id = uid u, c_email = email u, c_role = role u\<rparr>
      in \<lparr>accessToken = generateAccessToken jm payload now,
          refreshToken = generateRefreshToken jm payload now,
          tp_expiresIn = expiresIn jm\<rparr>)"

section \<open>The auth service (src/Web/Backend/src/services/authService.js)\<close>

text \<open>Every operation takes the store and the clock reading \<open>now\<close> of the call and
  returns its result, an error on the left, together with the store it leaves behind.
  Log lines are not modelled.\<close>

definition register :: "JWTManager \<Rightarrow> users \<Rightarrow> user_data \<Rightarrow> nat \<Rightarrow> (js_error + user_json \<times> token_pair) \<times> users" where
  "register jm db userData now =
     (case findByEmail db (ud_email userData) of
        Some existingUser \<Rightarrow> (Inl (ConflictError ''Email is already registered''), db)
      | None \<Rightarrow>
          (case save_new db (new_User db (userData\<lparr>ud_name := trim (ud_name userData),
                               ud_email := trim (toLowerCase (ud_email userData))\<rparr>) now) now of
             Inl e \<Rightarrow>
               (if code e = Some 11000 then (Inl (ConflictError ''Email is already registered''), db)
                else (Inl e, db))
           | Inr (u, db1) \<Rightarrow>
               let tokens = generateTokenPair jm u now;
                   (u', db2) = addRefreshToken db1 u (refreshToken tokens) now
               in (Inr (toJSON u' now, tokens), db2)))"

definition login :: "JWTManager \<Rightarrow> users \<Rightarrow> string \<Rightarrow> string \<Rightarrow> nat \<Rightarrow> (js_error + user_json \<times> token_pair) \<times> users" where
  "login jm db email_in password_in now =
     (case findOne_email db (toLowerCase email_in) of
        None \<Rightarrow> (Inl (AuthError ''Invalid email or password''), db)
      | Some u \<Rightarrow>
          if isLocked u now
            then (Inl (AuthError ''Account is temporarily locked. Please try again later''), db)
          else if \<not> isActive u then (Inl (AuthError ''Account is deactivated''), db)
          else if \<not> comparePassword u password_in
            then (Inl (AuthError ''Invalid email or password''), incLoginAttempts db u now)
          else
            let db1 = (if 0 < loginAttempts u then resetLoginAttempts db u else db);
                u1 = u\<lparr>lastLogin := Some now\<rparr>;
                db2 = updateOne db1 (uid u1) (\<lambda>d. d\<lparr>lastLogin := lastLogin u1\<rparr>);
                tokens = generateTokenPair jm u1 now;
                (u2, db3) = addRefreshToken db2 u1 (refreshToken tokens) now
            in (Inr (toJSON u2 now, tokens), db3))"

definition refreshToken_service :: "JWTManager \<Rightarrow> users \<Rightarrow> jwt \<Rightarrow> nat \<Rightarrow> (js_error + token_pair) \<times> users" where
  "refreshToken_service jm db rtoken now =
     (case verifyRefreshToken jm rtoken now of
        Inl e \<Rightarrow> (Inl e, db)
      | Inr decoded \<Rightarrow>
          (case findById db (p_id decoded) of
             None \<Rightarrow> (Inl (AuthError ''User not found''), db)
           | Some u \<Rightarrow>
               (case find (\<lambda>rt. token rt = rtoken) (refreshTokens u) of
                  None \<Rightarrow> (Inl (AuthError ''Invalid refresh token''), db)
                | Some storedToken \<Rightarrow>
                    let tokens = generateTokenPair jm u now;
                        (u1, db1) = removeRefreshToken db u rtoken;
                        (u2, db2) = addRefreshToken db1 u1 (refreshToken tokens) now
                    in (Inr tokens, db2))))"

definition logout :: "users \<Rightarrow> nat \<Rightarrow> jwt option \<Rightarrow> (js_error + unit) \<times> users" where
  "logout db userId rtoken =
     (case findById db userId of
        None \<Rightarrow> (Inl (AuthError ''User not found''), db)
      | Some u \<Rightarrow>
          (case rtoken of
             Some t \<Rightarrow> (Inr (), snd (removeRefreshToken db u t))
           | None \<Rightarrow> (Inr (), updateOne db (uid u) (\<lambda>d. d\<lparr>refreshTokens := []\<rparr>))))"


section \<open>Request authentication (middleware/auth.js, in src/unnamed/part_002)\<close>



section \<open>The login endpoint (controllers/authController.js, in src/unnamed/part_008)\<close>

text \<open>\<open>AuthController.login\<close> under \<open>asyncHandler\<close>: a result is answered with
  status 200, a thrown error goes to \<open>globalErrorHandler\<close>.\<close>

definition AuthController_login :: "bool \<Rightarrow> JWTManager \<Rightarrow> users \<Rightarrow> string \<Rightarrow> string \<Rightarrow> nat \<Rightarrow> http_response \<times> users" where
  "AuthController_login development jm db email_in password_in now =
     (case login jm db email_in password_in now of
        (Inl err, db') \<Rightarrow> (globalErrorHandler development err, db')
      | (Inr result, db') \<Rightarrow> (\<lparr>res_status = 200, res_message = ''Login successful''\<rparr>, db'))"

section \<open>Testimonials (model in src/unnamed/part_001, service in src/unnamed/part_004)\<close>

text \<open>A testimonial document; the request metadata is left out.\<close>

record testimonial =
  tid :: nat
  t_name :: string
  t_email :: "string option"
  rating :: nat
  review :: string
  isApproved :: bool
  isFeatured :: bool
  isVisible :: bool
  moderationNotes :: "string option"
  approvedBy :: "nat option"
  approvedAt :: "nat option"
  rejectedAt :: "nat option"
  t_createdAt :: nat

type_synonym testimonials = "testimonial list"

text \<open>\<open>findByIdAndUpdate\<close> with \<open>new: true\<close>: the first document with the id is
  updated in the store and returned as updated.\<close>

fun findByIdAndUpdate :: "testimonials \<Rightarrow> nat \<Rightarrow> (testimonial \<Rightarrow> testimonial) \<Rightarrow> testimonial option \<times> testimonials" where
  "findByIdAndUpdate [] i f = (None, [])"
| "findByIdAndUpdate (t # ts) i f =
     (if tid t = i then (Some (f t), f t # ts)
      else (case findByIdAndUpdate ts i f of (r, ts') \<Rightarrow> (r, t # ts')))"

definition approveTestimonial :: "testimonials \<Rightarrow> nat \<Rightarrow> nat \<Rightarrow> string \<Rightarrow> nat \<Rightarrow> (js_error + testimonial) \<times> testimonials" where
  "approveTestimonial db testimonialId moderatorId notes now =
     (case findByIdAndUpdate db testimonialId
             (\<lambda>t. let t' = t\<lparr>isApproved := True, approvedBy := Some moderatorId,
                                approvedAt := Some now\<rparr>
                  in if notes \<noteq> [] then t'\<lparr>moderationNotes := Some notes\<rparr> else t') of
        (None, db') \<Rightarrow> (Inl (NotFoundError ''Testimonial not found''), db')
      | (Some t, db') \<Rightarrow> (Inr t, db'))"

definition rejectTestimonial :: "testimonials \<Rightarrow> nat \<Rightarrow> nat \<Rightarrow> string \<Rightarrow> nat \<Rightarrow> (js_error + testimonial) \<times> testimonials" where
  "rejectTestimonial db testimonialId moderatorId reason now =
     (case findByIdAndUpdate db testimonialId
             (\<lambda>t. t\<lparr>isApproved := False, isVisible := False, rejectedAt := Some now,
                     moderationNotes := Some reason\<rparr>) of
        (None, db') \<Rightarrow> (Inl (NotFoundError ''Testimonial not found''), db')
      | (Some t, db') \<Rightarrow> (Inr t, db'))"

text \<open>\<open>featureTestimonial\<close>: the update is written first, the approval of the updated
  document is tested afterwards.\<close>

definition featureTestimonial :: "testimonials \<Rightarrow> nat \<Rightarrow> bool \<Rightarrow> (js_error + testimonial) \<times> testimonials" where
  "featureTestimonial db testimonialId featured =
     (case findByIdAndUpdate db testimonialId (\<lambda>t. t\<lparr>isFeatured := featured\<rparr>) of
        (None, db') \<Rightarrow> (Inl (NotFoundError ''Testimonial not found''), db')
      | (Some t, db') \<Rightarrow>
          if featured \<and> \<not> isApproved t
            then (Inl (ValidationError ''Only approved testimonials can be featured''), db')
          else (Inr t, db'))"

definition toggleVisibility :: "testimonials \<Rightarrow> nat \<Rightarrow> bool \<Rightarrow> (js_error + testimonial) \<times> testimonials" where
  "toggleVisibility db testimonialId visible =
     (case findByIdAndUpdate db testimonialId (\<lambda>t. t\<lparr>isVisible := visible\<rparr>) of
        (None, db') \<Rightarrow> (Inl (NotFoundError ''Testimonial not found''), db')
      | (Some t, db') \<Rightarrow> (Inr t, db'))"

text \<open>The invariant of the data model: a featured testimonial is approved.\<close>

definition featured_are_approved :: "testimonials \<Rightarrow> bool" where
  "featured_are_approved db = list_all (\<lambda>t. if isFeatured t then isApproved t else True) db"

subsection \<open>Rating statistics\<close>

text \<open>Numbers of the store are modelled as exact rationals. \<open>$round\<close> to two places
  rounds to the nearest hundredth, a tie to the even neighbour.\<close>

definition round2 :: "rat \<Rightarrow> rat" where
  "round2 x =
     (let s = x * 100; f = \<lfloor>s\<rfloor>; d = s - of_int f
      in (if d < 1 / 2 then of_int f
          else if 1 / 2 < d then of_int (f + 1)
          else if even f then of_int f else of_int (f + 1)) / 100)"

record rating_counts =
  stars5 :: nat
  stars4 :: nat
  stars3 :: nat
  stars2 :: nat
  stars1 :: nat

record rating_stats =
  totalReviews :: nat
  averageRating :: rat
  ratingCounts :: rating_counts

record rating_group =
  rg_totalReviews :: nat
  rg_averageRating :: rat
  ratingDistribution :: "nat list"

text \<open>The pipeline of \<open>getRatingStats\<close>: \<open>$match\<close>, \<open>$group\<close> with \<open>_id: null\<close>
  (no group at all when nothing matches), \<open>$project\<close>; then the first result or the
  zero record.\<close>

definition rating_match :: "testimonials \<Rightarrow> testimonials" where
  "rating_match ts = filter (\<lambda>t. isApproved t \<and> isVisible t) ts"

definition rating_group_stage :: "testimonials \<Rightarrow> rating_group list" where
  "rating_group_stage ts =
     (if ts = [] then []
      else [\<lparr>rg_totalReviews = length ts,
             rg_averageRating = of_nat (sum_list (map rating ts)) / of_nat (length ts),
             ratingDistribution = map rating ts\<rparr>])"

definition rating_project :: "rating_group \<Rightarrow> rating_stats" where
  "rating_project g =
     \<lparr>totalReviews = rg_totalReviews g,
      averageRating = round2 (rg_averageRating g),
      ratingCounts =
        \<lparr>stars5 = length (filter (\<lambda>r. r = 5) (ratingDistribution g)),
         stars4 = length (filter (\<lambda>r. r = 4) (ratingDistribution g)),
         stars3 = length (filter (\<lambda>r. r = 3) (ratingDistribution g)),
         stars2 = length (filter (\<lambda>r. r = 2) (ratingDistribution g)),
         stars1 = length (filter (\<lambda>r. r = 1) (ratingDistribution g))\<rparr>\<rparr>"

definition getRatingStats :: "testimonials \<Rightarrow> rating_stats" where
  "getRatingStats ts =
     (case map rating_project (rating_group_stage (rating_match ts)) of
        [] \<Rightarrow> \<lparr>totalReviews = 0, averageRating = 0,
               ratingCounts = \<lparr>stars5 = 0, stars4 = 0, stars3 = 0, stars2 = 0, stars1 = 0\<rparr>\<rparr>
      | s # rest \<Rightarrow> s)"

section \<open>Donations (models/Donation.js, in src/Web/Backend/src/utils/responseHandler.js)\<close>

datatype donation_status = Pending | Completed | Failed | Refunded

datatype payment_method = CreditCard | Paypal | BankTransfer | Crypto

datatype currency = USD | EUR | GBP | CAD

text \<open>A donation document; the request metadata and the processing time stamps are
  left out. An amount is the rational number that its stored double stands for.\<close>

record donation =
  did :: nat
  donorName :: string
  donorEmail :: string
  amount :: rat
  d_currency :: currency
  d_message :: "string option"
  isAnonymous :: bool
  transactionId :: "string option"
  status :: donation_status
  paymentMethod :: payment_method
  d_createdAt :: nat

type_synonym donations = "donation list"

subsection \<open>Leaderboard\<close>

record donor_group =
  g_id :: string
  g_donorName :: string
  g_totalAmount :: rat
  g_donationCount :: nat
  g_lastDonation :: nat

record leaderboard_entry =
  lb_donorEmail :: string
  lb_donorName :: string
  lb_totalAmount :: rat
  lb_donationCount :: nat
  lb_lastDonation :: nat

definition leaderboard_match :: "donations \<Rightarrow> donations" where
  "leaderboard_match ds = filter (\<lambda>d. status d = Completed \<and> isAnonymous d = False) ds"

text \<open>
  \<open>$group\<close> by \<open>donorEmail\<close>: \<open>accumulate dsum d same\<close> is the group of the first
  document \<open>d\<close> with an e-mail and the later documents \<open>same\<close> with that e-mail. The
  amounts are stored as doubles and \<open>$sum\<close> adds them in the store's floating-point
  arithmetic, which is not part of this development: it is the parameter \<open>dsum\<close>, applied
  to the amounts of the group in the order of the documents and about which nothing is
  assumed (an amount is the rational number its double stands for). The store leaves
  the order of the groups open; the model lists them by first occurrence.
\<close>

definition accumulate :: "(rat list \<Rightarrow> rat) \<Rightarrow> donation \<Rightarrow> donations \<Rightarrow> donor_group" where
  "accumulate dsum d same =
     \<lparr>g_id = donorEmail d, g_donorName = donorName d,
      g_totalAmount = dsum (map amount (d # same)),
      g_donationCount = length (d # same),
      g_lastDonation = fold max (map d_createdAt same) (d_createdAt d)\<rparr>"

fun leaderboard_group :: "(rat list \<Rightarrow> rat) \<Rightarrow> donations \<Rightarrow> donor_group list" where
  "leaderboard_group dsum [] = []"
| "leaderboard_group dsum (d # ds) =
     accumulate dsum d (filter (\<lambda>x. donorEmail x = donorEmail d) ds)
       # leaderboard_group dsum (filter (\<lambda>x. donorEmail x \<noteq> donorEmail d) ds)"

text \<open>\<open>$sort\<close> by \<open>totalAmount\<close> descending; among equal totals the store leaves the
  order open, the model keeps the order of the groups.\<close>

definition leaderboard_sort :: "donor_group list \<Rightarrow> donor_group list" where
  "leaderboard_sort gs = sort_key (\<lambda>g. - g_totalAmount g) gs"

text \<open>The documents that reach \<open>$project\<close>: matched, grouped, sorted and cut to the
  first \<open>n\<close>.\<close>

definition leaderboard_rows :: "(rat list \<Rightarrow> rat) \<Rightarrow> donations \<Rightarrow> nat \<Rightarrow> donor_group list" where
  "leaderboard_rows dsum ds n =
     take n (leaderboard_sort (leaderboard_group dsum (leaderboard_match ds)))"

text \<open>
  The computed field of \<open>$project\<close> is
  \<^verbatim>\<open>formattedTotal: { $concat: ['$', { $toString: '$totalAmount' }] }\<close>.
  The store parses the expressions of a pipeline before it runs it. A string operand
  that starts with \<open>$\<close> is a field path, and the string \<open>$\<close> alone is refused with
  error 16872; an operator is accepted when its operands are.
\<close>

datatype agg_expr = Str string | Concat "agg_expr list" | ToString agg_expr

definition MongoServerError :: "nat \<Rightarrow> string \<Rightarrow> js_error" where
  "MongoServerError c msg = (LibError ''MongoServerError'' msg)\<lparr>code := Some c\<rparr>"

fun parse_operand :: "agg_expr \<Rightarrow> js_error option"
  and parse_operands :: "agg_expr list \<Rightarrow> js_error option" where
  "parse_operand (Str s) =
     (if s = ''$'' then Some (MongoServerError 16872 '''$' by itself is not a valid FieldPath'')
      else None)"
| "parse_operand (Concat es) = parse_operands es"
| "parse_operand (ToString e) = parse_operand e"
| "parse_operands [] = None"
| "parse_operands (e # es) =
     (case parse_operand e of Some err \<Rightarrow> Some err | None \<Rightarrow> parse_operands es)"

definition formattedTotal_expr :: agg_expr where
  "formattedTotal_expr = Concat [Str ''$'', ToString (Str ''$totalAmount'')]"

text \<open>The fields that \<open>$project\<close> copies. The value of \<open>formattedTotal\<close> is not part of
  the entry: with the expression of the source no document is ever projected.\<close>

definition leaderboard_project :: "donor_group \<Rightarrow> leaderboard_entry" where
  "leaderboard_project g =
     \<lparr>lb_donorEmail = g_id g, lb_donorName = g_donorName g, lb_totalAmount = g_totalAmount g,
      lb_donationCount = g_donationCount g, lb_lastDonation = g_lastDonation g\<rparr>"

text \<open>\<open>getLeaderboard\<close>: \<open>limit\<close> defaults to 10 when it is not given. The store
  refuses a \<open>$limit\<close> that is not positive, and it refuses the pipeline when an
  expression of \<open>$project\<close> does not parse; only then does it run the stages.\<close>

definition getLeaderboard :: "(rat list \<Rightarrow> rat) \<Rightarrow> donations \<Rightarrow> int option \<Rightarrow> js_error + leaderboard_entry list" where
  "getLeaderboard dsum ds limit_arg =
     (let limit = (case limit_arg of None \<Rightarrow> 10 | Some l \<Rightarrow> l)
      in if limit \<le> 0 then Inl (LibError ''MongoServerError'' ''the limit must be positive'')
         else (case parse_operand formattedTotal_expr of
                 Some err \<Rightarrow> Inl err
               | None \<Rightarrow> Inr (map leaderboard_project (leaderboard_rows dsum ds (nat limit)))))"

subsection \<open>Statistics\<close>

record donation_stats =
  totalAmount :: rat
  totalDonations :: nat
  averageAmount :: rat
  maxAmount :: rat
  minAmount :: rat

text \<open>\<open>$group\<close> with \<open>_id: null\<close>: one group over all matched documents, none when
  nothing matches. The sum and the mean of a group are written exactly here; the store
  computes them in floating point, which shows only when there is a group.\<close>

definition stats_group :: "donations \<Rightarrow> donation_stats list" where
  "stats_group ds =
     (case ds of
        [] \<Rightarrow> []
      | d # rest \<Rightarrow>
          [\<lparr>totalAmount = sum_list (map amount ds), totalDonations = length ds,
            averageAmount = sum_list (map amount ds) / of_nat (length ds),
            maxAmount = fold max (map amount rest) (amount d),
            minAmount = fold min (map amount rest) (amount d)\<rparr>])"

definition getStats :: "donations \<Rightarrow> donation_stats" where
  "getStats ds =
     (case stats_group (filter (\<lambda>d. status d = Completed) ds) of
        [] \<Rightarrow> \<lparr>totalAmount = 0, totalDonations = 0, averageAmount = 0, maxAmount = 0,
               minAmount = 0\<rparr>
      | s # rest \<Rightarrow> s)"

section \<open>Auxiliary notions for the statements\<close>

text \<open>The store after a run of logins to one account with the same password at the
  clock readings \<open>ts\<close>.\<close>

definition repeated_logins :: "JWTManager \<Rightarrow> users \<Rightarrow> string \<Rightarrow> string \<Rightarrow> nat list \<Rightarrow> users" where
  "repeated_logins jm db e pw ts = fold (\<lambda>t d. snd (login jm d e pw t)) ts db"

text \<open>The donations that count for donor \<open>e\<close> on the leaderboard: completed, not
  anonymous, and given under the e-mail \<open>e\<close>.\<close>

definition counted :: "donations \<Rightarrow> string \<Rightarrow> donations" where
  "counted ds e =
     filter (\<lambda>d. status d = Completed \<and> \<not> isAnonymous d \<and> donorEmail d = e) ds"

section \<open>Example data\<close>

definition jm0 :: JWTManager where
  "jm0 = \<lparr>secret = ''s'', refreshSecret = ''s_refresh'', expiresIn = 86400,
          refreshExpiresIn = 604800\<rparr>"

text \<open>An account with five failed attempts whose lock ran out at time 1000.\<close>

definition alice :: user where
  "alice = \<lparr>uid = 1, name = ''Alice'', email = ''a@b.co'', password = bcrypt_hash ''Secret#123'',
      role = RoleUser, isActive = True, isVerified = False, refreshTokens = [], lastLogin = None,
      loginAttempts = 5, lockUntil = Some 1000, passwordChangedAt = Some 0\<rparr>"

text \<open>An unlocked account with four failed attempts, and the same account after a
  fifth failure at time 5000.\<close>

definition bob :: user where
  "bob = \<lparr>uid = 2, name = ''Bob'', email = ''bob@x.org'', password = bcrypt_hash ''Passw0rd!'',
      role = RoleUser, isActive = True, isVerified = False, refreshTokens = [], lastLogin = None,
      loginAttempts = 4, lockUntil = None, passwordChangedAt = Some 0\<rparr>"

definition bob_locked :: user where
  "bob_locked = bob\<lparr>loginAttempts := 5, lockUntil := Some 7205000\<rparr>"





text \<open>An account before its first login, the refresh token a login at time 10000 issues,
  and the account after that login.\<close>

definition dave :: user where
  "dave = \<lparr>uid = 4, name = ''Dave'', email = ''dave@x.org'', password = bcrypt_hash ''Passw0rd!'',
      role = RoleUser, isActive = True, isVerified = False, refreshTokens = [], lastLogin = None,
      loginAttempts = 0, lockUntil = None, passwordChangedAt = Some 0\<rparr>"

definition dave_refresh :: jwt where
  "dave_refresh =
     generateRefreshToken jm0 \<lparr>c_id = 4, c_email = ''dave@x.org'', c_role = RoleUser\<rparr> 10000"

definition dave_logged_in :: user where
  "dave_logged_in =
     dave\<lparr>lastLogin := Some 10000, refreshTokens := [\<lparr>token = dave_refresh, createdAt = 10000\<rparr>]\<rparr>"

text \<open>The account that registering 'Erin@Ex.com' at time 1000 creates in an empty store.\<close>

definition erin :: user where
  "erin = \<lparr>uid = 1, name = ''Erin'', email = ''erin@ex.com'', password = bcrypt_hash ''Secret#123'',
      role = RoleUser, isActive = True, isVerified = False,
      refreshTokens =
        [\<lparr>token = generateRefreshToken jm0
                    \<lparr>c_id = 1, c_email = ''erin@ex.com'', c_role = RoleUser\<rparr> 1000,
          createdAt = 1000\<rparr>],
      lastLogin = None, loginAttempts = 0, lockUntil = None, passwordChangedAt = Some 1000\<rparr>"

text \<open>A testimonial that waits for moderation, and one that is approved and featured.\<close>

definition t_pending :: testimonial where
  "t_pending = \<lparr>tid = 7, t_name = ''Pat'', t_email = None, rating = 5,
      review = ''Great service, thank you'', isApproved = False, isFeatured = False,
      isVisible = True, moderationNotes = None, approvedBy = None, approvedAt = None,
      rejectedAt = None, t_createdAt = 100\<rparr>"

definition t_star :: testimonial where
  "t_star = t_pending\<lparr>tid := 8, isApproved := True, isFeatured := True, approvedBy := Some 1,
                      approvedAt := Some 150\<rparr>"

text \<open>Six testimonials: four published ones rated 5, 5, 4 and 3, one that is not
  approved and one that is hidden.\<close>

definition review_of :: "nat \<Rightarrow> nat \<Rightarrow> bool \<Rightarrow> bool \<Rightarrow> testimonial" where
  "review_of i r approved visible =
     \<lparr>tid = i, t_name = ''Guest'', t_email = None, rating = r, review = ''A review of the site'',
      isApproved = approved, isFeatured = False, isVisible = visible, moderationNotes = None,
      approvedBy = None, approvedAt = None, rejectedAt = None, t_createdAt = i\<rparr>"

definition spec_reviews :: testimonials where
  "spec_reviews =
     [review_of 1 5 True True, review_of 2 1 False True, review_of 3 5 True True,
      review_of 4 4 True True, review_of 5 2 True False, review_of 6 3 True True]"

text \<open>The three donations of the specification's example, and two that are not
  completed.\<close>

definition gift :: "nat \<Rightarrow> string \<Rightarrow> string \<Rightarrow> rat \<Rightarrow> donation_status \<Rightarrow> bool \<Rightarrow> donation" where
  "gift i n e a s anon =
     \<lparr>did = i, donorName = n, donorEmail = e, amount = a, d_currency = USD, d_message = None,
      isAnonymous = anon, transactionId = None, status = s, paymentMethod = Paypal,
      d_createdAt = 100 * i\<rparr>"

definition spec_donations :: donations where
  "spec_donations =
     [gift 1 ''A'' ''a@x.org'' 50 Completed False,
      gift 2 ''B'' ''b@x.org'' 100 Pending False,
      gift 3 ''C'' ''c@x.org'' 30 Completed True]"

definition open_donations :: donations where
  "open_donations =
     [gift 1 ''A'' ''a@x.org'' 50 Pending False, gift 2 ''B'' ''b@x.org'' 100 Failed False]"

section \<open>Properties of the store operations\<close>

lemma find_map_upd:
  "find P (map g xs) = map_option g (find (\<lambda>x. P (g x)) xs)"
  by (induction xs) auto

lemma findOne_email_updateOne:
  assumes "\<And>d. email (f d) = email d" "findOne_email db e = Some u"
  shows "findOne_email (updateOne db (uid u) f) e = Some (f u)"
  using assms
  by (simp add: findOne_email_def updateOne_def find_map_upd if_distrib[of email] cong: if_cong)

lemma findById_uid: "findById db i = Some u \<Longrightarrow> uid u = i"
  by (auto simp: findById_def find_Some_iff)

lemma findById_updateOne:
  assumes "\<And>d. uid (f d) = uid d" "findById db i = Some u"
  shows "findById (updateOne db i f) i = Some (f u)"
  using assms findById_uid[OF assms(2)]
  by (simp add: findById_def updateOne_def find_map_upd if_distrib[of uid] cong: if_cong)

section \<open>Login and lockout\<close>

lemma login_locked:
  assumes "findOne_email db (toLowerCase e) = Some u" "isLocked u now"
  shows "login jm db e pw now =
           (Inl (AuthError ''Account is temporarily locked. Please try again later''), db)"
  using assms by (simp add: login_def)

lemma login_wrong_password:
  assumes "findOne_email db (toLowerCase e) = Some u" "\<not> isLocked u now" "isActive u"
    "\<not> comparePassword u pw"
  shows "login jm db e pw now =
           (Inl (AuthError ''Invalid email or password''), incLoginAttempts db u now)"
  using assms by (simp add: login_def)

text \<open>
  C10. An account whose \<open>lockUntil\<close> has already passed: the next login with a wrong
  password fails with the usual 'Invalid email or password', and the stored account has
  its attempt counter back at exactly 1 and no \<open>lockUntil\<close>; the old counter is not
  incremented and the account is not locked again.
\<close>

theorem login_expired_lock_restarts_counter:
  assumes "findOne_email db (toLowerCase e) = Some u"
    and "lockUntil u = Some t" and "t < now"
    and "isActive u" and "\<not> comparePassword u pw"
  shows "fst (login jm db e pw now) = Inl (AuthError ''Invalid email or password'')
       \<and> findOne_email (snd (login jm db e pw now)) (toLowerCase e)
           = Some (u\<lparr>lockUntil := None, loginAttempts := 1\<rparr>)"
proof -
  have nl: "\<not> isLocked u now"
    using assms(2,3) by (simp add: isLocked_def)
  have l: "login jm db e pw now =
           (Inl (AuthError ''Invalid email or password''), incLoginAttempts db u now)"
    by (rule login_wrong_password[OF assms(1) nl assms(4,5)])
  have i: "incLoginAttempts db u now =
           updateOne db (uid u) (\<lambda>u. u\<lparr>lockUntil := None, loginAttempts := 1\<rparr>)"
    using assms(2,3) by (simp add: incLoginAttempts_def)
  show ?thesis
    unfolding l i
    using findOne_email_updateOne[OF _ assms(1),
        of "\<lambda>u. u\<lparr>lockUntil := None, loginAttempts := 1\<rparr>"]
    by simp
qed

theorem login_expired_lock_restarts_counter_witness:
  "findOne_email [alice] (toLowerCase ''A@B.co'') = Some alice
   \<and> lockUntil alice = Some 1000 \<and> (1000::nat) < 2000 \<and> isActive alice
   \<and> \<not> comparePassword alice ''wrong''
   \<and> fst (login jm0 [alice] ''A@B.co'' ''wrong'' 2000) = Inl (AuthError ''Invalid email or password'')
   \<and> findOne_email (snd (login jm0 [alice] ''A@B.co'' ''wrong'' 2000)) (toLowerCase ''A@B.co'')
           = Some (alice\<lparr>lockUntil := None, loginAttempts := 1\<rparr>)"
proof -
  have h1: "findOne_email [alice] (toLowerCase ''A@B.co'') = Some alice" by code_simp
  have h2: "lockUntil alice = Some 1000" by (simp add: alice_def)
  have h3: "(1000::nat) < 2000" by simp
  have h4: "isActive alice" by (simp add: alice_def)
  have h5: "\<not> comparePassword alice ''wrong''" by code_simp
  show ?thesis
    using login_expired_lock_restarts_counter[OF h1 h2 h3 h4 h5, of jm0] h1 h2 h4 h5 by simp
qed


lemmas login_eval =
  login_def findOne_email_def toLowerCase_def lower_char_def isLocked_def comparePassword_def
  bcrypt_compare_def bcrypt_hash_def incLoginAttempts_def updateOne_def




text \<open>Consecutive failures: fewer than five wrong passwords on an unlocked account only
  count up; the fifth locks the account for two hours from its own clock reading, and
  until then every login is refused, whatever the password.\<close>

lemma failed_logins_count:
  assumes "findOne_email db (toLowerCase e) = Some u" "isActive u" "\<not> comparePassword u pw"
    "lockUntil u = None" "loginAttempts u + length ts < 5"
  shows "findOne_email (repeated_logins jm db e pw ts) (toLowerCase e)
           = Some (u\<lparr>loginAttempts := loginAttempts u + length ts\<rparr>)"
  using assms
proof (induction ts arbitrary: db u)
  case Nil
  then show ?case
    by (simp add: repeated_logins_def)
next
  case (Cons t ts)
  let ?u = "u\<lparr>loginAttempts := loginAttempts u + 1\<rparr>"
  have l: "login jm db e pw t =
           (Inl (AuthError ''Invalid email or password''), incLoginAttempts db u t)"
    using login_wrong_password[OF Cons.prems(1)] Cons.prems by (simp add: isLocked_def)
  have i: "incLoginAttempts db u t
             = updateOne db (uid u) (\<lambda>d. d\<lparr>loginAttempts := loginAttempts d + 1\<rparr>)"
    using Cons.prems by (simp add: incLoginAttempts_def)
  have step: "findOne_email (snd (login jm db e pw t)) (toLowerCase e) = Some ?u"
    unfolding l i
    using findOne_email_updateOne[OF _ Cons.prems(1),
        of "\<lambda>d. d\<lparr>loginAttempts := loginAttempts d + 1\<rparr>"]
    by simp
  have "findOne_email (repeated_logins jm (snd (login jm db e pw t)) e pw ts) (toLowerCase e)
           = Some (?u\<lparr>loginAttempts := loginAttempts ?u + length ts\<rparr>)"
    using Cons.prems by (intro Cons.IH[OF step]) (simp_all add: comparePassword_def)
  then show ?case
    by (simp add: repeated_logins_def)
qed

lemma five_failures_lock:
  assumes found: "findOne_email db (toLowerCase e) = Some u" and "isActive u"
    and "\<not> comparePassword u pw" and "lockUntil u = None" and "loginAttempts u = 0"
    and "length ts = 4"
  shows "findOne_email (repeated_logins jm db e pw (ts @ [t5])) (toLowerCase e)
           = Some (u\<lparr>loginAttempts := 5, lockUntil := Some (t5 + 2 * 60 * 60 * 1000)\<rparr>)"
    and "t < t5 + 2 * 60 * 60 * 1000 \<Longrightarrow>
         fst (login jm (repeated_logins jm db e pw (ts @ [t5])) e pw' t)
           = Inl (AuthError ''Account is temporarily locked. Please try again later'')"
proof -
  let ?u = "u\<lparr>loginAttempts := loginAttempts u + length ts\<rparr>"
  let ?db = "repeated_logins jm db e pw ts"
  have four: "findOne_email ?db (toLowerCase e) = Some ?u"
    using assms by (intro failed_logins_count) simp_all
  have l: "login jm ?db e pw t5 =
           (Inl (AuthError ''Invalid email or password''), incLoginAttempts ?db ?u t5)"
    using login_wrong_password[OF four] assms by (simp add: isLocked_def comparePassword_def)
  have i: "incLoginAttempts ?db ?u t5
             = updateOne ?db (uid ?u)
                 (\<lambda>d. d\<lparr>loginAttempts := loginAttempts d + 1,
                         lockUntil := Some (t5 + 2 * 60 * 60 * 1000)\<rparr>)"
    using assms by (simp add: incLoginAttempts_def isLocked_def)
  have last: "findOne_email (snd (login jm ?db e pw t5)) (toLowerCase e)
          = Some (u\<lparr>loginAttempts := 5, lockUntil := Some (t5 + 2 * 60 * 60 * 1000)\<rparr>)"
    unfolding l i
    using findOne_email_updateOne[OF _ four,
        of "\<lambda>d. d\<lparr>loginAttempts := loginAttempts d + 1,
                  lockUntil := Some (t5 + 2 * 60 * 60 * 1000)\<rparr>"] assms
    by simp
  have app: "repeated_logins jm db e pw (ts @ [t5]) = snd (login jm ?db e pw t5)"
    by (simp add: repeated_logins_def)
  show f: "findOne_email (repeated_logins jm db e pw (ts @ [t5])) (toLowerCase e)
           = Some (u\<lparr>loginAttempts := 5, lockUntil := Some (t5 + 2 * 60 * 60 * 1000)\<rparr>)"
    by (simp add: app last)
  show "fst (login jm (repeated_logins jm db e pw (ts @ [t5])) e pw' t)
           = Inl (AuthError ''Account is temporarily locked. Please try again later'')"
    if "t < t5 + 2 * 60 * 60 * 1000"
    using login_locked[OF f, of t jm pw'] that by (simp add: isLocked_def)
qed

section \<open>The status of a locked login\<close>

lemma AuthError_status:
  "res_status (globalErrorHandler development (AuthError msg)) = 401"
  by (simp add: globalErrorHandler_def AuthError_def AppError_def sendErrorDev_def
      sendErrorProd_def Let_def)

text \<open>Whatever the account and the environment, a login that finds the account locked
  is answered with status 401.\<close>

lemma locked_login_status:
  assumes "findOne_email db (toLowerCase e) = Some u" "isLocked u now"
  shows "res_status (fst (AuthController_login development jm db e pw now)) = 401"
  by (simp add: AuthController_login_def login_locked[OF assms] AuthError_status)

text \<open>
  C4. A login against an account whose \<open>lockUntil\<close> is in the future is refused with the
  account-locked message, but the error is an \<open>AuthError\<close> and the client receives status
  401 in either environment, not 423: \<open>bob_locked\<close> is locked until 7205000 and logs in
  with the right password at 6000.
\<close>

theorem locked_login_answers_401:
  "isLocked bob_locked 6000
   \<and> fst (login jm0 [bob_locked] ''bob@x.org'' ''Passw0rd!'' 6000)
        = Inl (AuthError ''Account is temporarily locked. Please try again later'')
   \<and> res_status (fst (AuthController_login False jm0 [bob_locked] ''bob@x.org'' ''Passw0rd!'' 6000)) = 401
   \<and> res_status (fst (AuthController_login True jm0 [bob_locked] ''bob@x.org'' ''Passw0rd!'' 6000)) = 401
   \<and> res_status (fst (AuthController_login False jm0 [bob_locked] ''bob@x.org'' ''Passw0rd!'' 6000)) \<noteq> 423"
proof -
  have f: "findOne_email [bob_locked] (toLowerCase ''bob@x.org'') = Some bob_locked"
    by (simp add: login_eval bob_def bob_locked_def)
  have l: "isLocked bob_locked 6000"
    by (simp add: isLocked_def bob_def bob_locked_def)
  show ?thesis
    by (simp add: AuthController_login_def login_locked[OF f l] l AuthError_status)
qed

section \<open>Password change\<close>






text \<open>A token issued at a clock reading before the change has an \<open>iat\<close> before the
  change, so it falls under the theorem.\<close>

lemma issued_before_change:
  assumes "t0 < now" "generateAccessToken jm c t0 = Signed p k"
  shows "p_id p = c_id c \<and> iat p * 1000 < now"
proof -
  have "iat p = t0 div 1000" "p_id p = c_id c"
    using assms(2) by (auto simp: generateAccessToken_def)
  moreover have "t0 div 1000 * 1000 \<le> t0"
    by simp
  ultimately show ?thesis
    using assms(1) by simp
qed



section \<open>Refresh-token rotation\<close>

lemmas refresh_eval =
  refreshToken_service_def verifyRefreshToken_def jwt_verify_def findById_def
  generateTokenPair_def generateAccessToken_def generateRefreshToken_def removeRefreshToken_def
  addRefreshToken_def updateOne_def jm0_def Let_def

text \<open>
  C1. The refresh token that a login at time 10000 (second 10) issues to \<open>dave\<close> is
  presented at 10400, within the same second. The call succeeds, but the refresh token it
  issues is the very token that was presented: it is removed from the list and added again,
  and a second call with it, at 10900, succeeds as well instead of failing with
  'Invalid refresh token'.
\<close>

theorem refresh_token_reuse_within_second:
  "login jm0 [dave] ''dave@x.org'' ''Passw0rd!'' 10000
     = (Inr (toJSON dave_logged_in 10000, generateTokenPair jm0 dave 10000), [dave_logged_in])
   \<and> refreshToken (generateTokenPair jm0 dave 10000) = dave_refresh
   \<and> refreshToken_service jm0 [dave_logged_in] dave_refresh 10400
       = (Inr (generateTokenPair jm0 dave_logged_in 10400),
          [dave_logged_in\<lparr>refreshTokens := [\<lparr>token = dave_refresh, createdAt = 10400\<rparr>]\<rparr>])
   \<and> refreshToken (generateTokenPair jm0 dave_logged_in 10400) = dave_refresh
   \<and> fst (refreshToken_service jm0
            (snd (refreshToken_service jm0 [dave_logged_in] dave_refresh 10400)) dave_refresh 10900)
       = Inr (generateTokenPair jm0 dave_logged_in 10900)"
proof -
  have issued: "refreshToken (generateTokenPair jm0 dave 10000) = dave_refresh"
    by (simp add: generateTokenPair_def generateRefreshToken_def dave_def dave_refresh_def)
  have logged_in: "login jm0 [dave] ''dave@x.org'' ''Passw0rd!'' 10000
     = (Inr (toJSON dave_logged_in 10000, generateTokenPair jm0 dave 10000), [dave_logged_in])"
    by (simp add: login_eval addRefreshToken_def generateTokenPair_def generateAccessToken_def
        generateRefreshToken_def toJSON_def Let_def dave_def dave_logged_in_def dave_refresh_def)
  have same: "refreshToken (generateTokenPair jm0 dave_logged_in 10400) = dave_refresh"
    by (simp add: generateTokenPair_def generateRefreshToken_def dave_def dave_logged_in_def
        dave_refresh_def)
  have first: "refreshToken_service jm0 [dave_logged_in] dave_refresh 10400
       = (Inr (generateTokenPair jm0 dave_logged_in 10400),
          [dave_logged_in\<lparr>refreshTokens := [\<lparr>token = dave_refresh, createdAt = 10400\<rparr>]\<rparr>])"
    by (simp add: refresh_eval dave_def dave_logged_in_def dave_refresh_def)
  have second: "fst (refreshToken_service jm0
            [dave_logged_in\<lparr>refreshTokens := [\<lparr>token = dave_refresh, createdAt = 10400\<rparr>]\<rparr>]
            dave_refresh 10900)
       = Inr (generateTokenPair jm0 dave_logged_in 10900)"
    by (simp add: refresh_eval dave_def dave_logged_in_def dave_refresh_def)
  show ?thesis
    using issued logged_in same first second by simp
qed

text \<open>Where the rotation happens in a later clock second than the one the presented
  token was issued in, the fresh token differs and the presented one is spent: the list
  loses it and gains the fresh one, and presenting it again fails.\<close>

lemma refreshToken_rotation_later_second:
  assumes t: "t = generateRefreshToken jm c t0" and c: "c_id c = uid u"
    and u: "findById db (uid u) = Some u"
    and stored: "find (\<lambda>rt. token rt = t) (refreshTokens u) \<noteq> None"
    and later: "t0 div 1000 < now div 1000"
    and live: "now div 1000 < t0 div 1000 + refreshExpiresIn jm"
  shows "fst (refreshToken_service jm db t now) = Inr (generateTokenPair jm u now)"
    and "findById (snd (refreshToken_service jm db t now)) (uid u)
           = Some (u\<lparr>refreshTokens := filter (\<lambda>rt. token rt \<noteq> t) (refreshTokens u)
                        @ [\<lparr>token = refreshToken (generateTokenPair jm u now), createdAt = now\<rparr>]\<rparr>)"
    and "\<exists>e. fst (refreshToken_service jm (snd (refreshToken_service jm db t now)) t now') = Inl e"
proof -
  let ?new = "refreshToken (generateTokenPair jm u now)"
  let ?rts = "filter (\<lambda>rt. token rt \<noteq> t) (refreshTokens u) @ [\<lparr>token = ?new, createdAt = now\<rparr>]"
  let ?f = "\<lambda>d. d\<lparr>refreshTokens := ?rts\<rparr>"
  let ?g = "\<lambda>d. d\<lparr>refreshTokens := filter (\<lambda>rt. token rt \<noteq> t) (refreshTokens u)\<rparr>"
  have v: "verifyRefreshToken jm t now
             = Inr \<lparr>p_id = uid u, p_email = None, p_role = None, p_tokenType = Some ''refresh'',
                    iat = t0 div 1000, exp_claim = t0 div 1000 + refreshExpiresIn jm,
                    iss = ''nba-analytics'', aud = None\<rparr>"
    using live by (simp add: t c verifyRefreshToken_def jwt_verify_def generateRefreshToken_def)
  have new: "?new \<noteq> t"
    using later by (simp add: t generateTokenPair_def generateRefreshToken_def)
  have upd: "updateOne (updateOne db (uid u) ?g) (uid u) ?f = updateOne db (uid u) ?f"
    by (simp add: updateOne_def)
  have run: "refreshToken_service jm db t now
               = (Inr (generateTokenPair jm u now), updateOne db (uid u) ?f)"
    using v u stored upd
    by (auto simp: refreshToken_service_def removeRefreshToken_def addRefreshToken_def Let_def)
  show "fst (refreshToken_service jm db t now) = Inr (generateTokenPair jm u now)"
    by (simp add: run)
  have fb: "findById (updateOne db (uid u) ?f) (uid u) = Some (?f u)"
    using findById_updateOne[OF _ u, of ?f] by simp
  show "findById (snd (refreshToken_service jm db t now)) (uid u) = Some (u\<lparr>refreshTokens := ?rts\<rparr>)"
    by (simp add: run fb)
  have gone: "find (\<lambda>rt. token rt = t) ?rts = None"
    using new by (auto simp: find_None_iff)
  have "verifyRefreshToken jm t now'
          = Inr \<lparr>p_id = uid u, p_email = None, p_role = None, p_tokenType = Some ''refresh'',
                 iat = t0 div 1000, exp_claim = t0 div 1000 + refreshExpiresIn jm,
                 iss = ''nba-analytics'', aud = None\<rparr>
        \<or> (\<exists>e. verifyRefreshToken jm t now' = Inl e)"
    by (simp add: t c verifyRefreshToken_def jwt_verify_def generateRefreshToken_def)
  then have "\<exists>e. fst (refreshToken_service jm (updateOne db (uid u) ?f) t now') = Inl e"
    using fb gone by (auto simp: refreshToken_service_def)
  then show "\<exists>e. fst (refreshToken_service jm (snd (refreshToken_service jm db t now)) t now') = Inl e"
    by (simp add: run)
qed

section \<open>Registration\<close>

lemmas register_eval =
  register_def findByEmail_def findOne_email_def toLowerCase_def lower_char_def save_new_def
  new_User_def validate_name_def validate_email_def validate_password_def matches_email_def
  is_space_def trim_def fresh_id_def bcrypt_hash_def generateTokenPair_def
  generateAccessToken_def generateRefreshToken_def addRefreshToken_def updateOne_def toJSON_def
  isLocked_def jm0_def Let_def

lemma find_not_None: "u \<in> set xs \<Longrightarrow> P u \<Longrightarrow> find P xs \<noteq> None"
  by (auto simp: find_None_iff)

text \<open>
  C7. When the store holds a user whose e-mail is the lower-cased form of the e-mail
  presented, that is, the e-mail is registered already and is presented in any letter
  case, \<open>register\<close> fails with the 409 'Email is already registered' and leaves the store
  as it was: no second record is created.
\<close>

theorem register_duplicate_email:
  assumes "u \<in> set db" and "email u = toLowerCase (ud_email userData)"
  shows "register jm db userData now = (Inl (ConflictError ''Email is already registered''), db)"
proof -
  have "findByEmail db (ud_email userData) \<noteq> None"
    unfolding findByEmail_def findOne_email_def
    using assms by (intro find_not_None[of u]) auto
  then show ?thesis
    by (auto simp: register_def split: option.splits)
qed

text \<open>The witness registers 'Erin@Ex.com' in an empty store and then 'ERIN@EX.COM'.\<close>

theorem register_duplicate_email_witness:
  "snd (register jm0 [] \<lparr>ud_name = '' Erin '', ud_email = ''Erin@Ex.com'',
                         ud_password = ''Secret#123''\<rparr> 1000) = [erin]
   \<and> erin \<in> set [erin]
   \<and> email erin = toLowerCase (ud_email \<lparr>ud_name = ''Eve'', ud_email = ''ERIN@EX.COM'',
                                          ud_password = ''Secret#456''\<rparr>)
   \<and> register jm0 [erin] \<lparr>ud_name = ''Eve'', ud_email = ''ERIN@EX.COM'',
                           ud_password = ''Secret#456''\<rparr> 2000
       = (Inl (ConflictError ''Email is already registered''), [erin])
   \<and> statusCode (ConflictError ''Email is already registered'') = Some 409"
proof -
  have r: "snd (register jm0 [] \<lparr>ud_name = '' Erin '', ud_email = ''Erin@Ex.com'',
                         ud_password = ''Secret#123''\<rparr> 1000) = [erin]"
    by (simp add: register_eval erin_def)
  have m: "erin \<in> set [erin]"
    by simp
  have e: "email erin = toLowerCase (ud_email \<lparr>ud_name = ''Eve'', ud_email = ''ERIN@EX.COM'',
                                          ud_password = ''Secret#456''\<rparr>)"
    by (simp add: erin_def toLowerCase_def lower_char_def)
  show ?thesis
    using register_duplicate_email[OF m e, of jm0 2000] r e
    by (simp add: ConflictError_def AppError_def)
qed

text \<open>The unique index catches what the lookup misses (an e-mail presented with white
  space around it): \<open>register\<close> never leaves two records with the same e-mail.\<close>

lemma register_keeps_emails_distinct:
  assumes "distinct (map email db)"
  shows "distinct (map email (snd (register jm db userData now)))"
proof -
  have m: "\<And>xs i f. (\<And>d. email (f d) = email d) \<Longrightarrow> map email (updateOne xs i f) = map email xs"
    by (simp add: updateOne_def if_distrib[of email] cong: if_cong)
  show ?thesis
    using assms
    by (auto simp: register_def save_new_def addRefreshToken_def Let_def m find_None_iff
        split: option.splits sum.splits prod.splits if_splits)
qed

section \<open>Featuring testimonials\<close>

lemma findByIdAndUpdate_Some:
  assumes "find (\<lambda>t. tid t = i) db = Some t" "\<And>x. tid (f x) = tid x"
  shows "fst (findByIdAndUpdate db i f) = Some (f t)
       \<and> find (\<lambda>t. tid t = i) (snd (findByIdAndUpdate db i f)) = Some (f t)"
  using assms by (induction db) (auto split: prod.splits)

text \<open>Featuring an unapproved testimonial fails with the 400 error, and the stored
  testimonial is featured all the same.\<close>

lemma featureTestimonial_unapproved:
  assumes "find (\<lambda>t. tid t = i) db = Some t" "\<not> isApproved t"
  shows "fst (featureTestimonial db i True)
           = Inl (ValidationError ''Only approved testimonials can be featured'')
       \<and> find (\<lambda>t. tid t = i) (snd (featureTestimonial db i True)) = Some (t\<lparr>isFeatured := True\<rparr>)"
  using findByIdAndUpdate_Some[OF assms(1), of "\<lambda>t. t\<lparr>isFeatured := True\<rparr>"] assms(2)
  by (auto simp: featureTestimonial_def split: prod.splits)

text \<open>
  C5. \<open>t_pending\<close> is neither approved nor featured, and the store that holds it satisfies
  the invariant. \<open>featureTestimonial\<close> fails with 'Only approved testimonials can be
  featured', yet the store it leaves behind holds the testimonial with \<open>isFeatured\<close> set:
  the failed call has changed the flag and broken the invariant.
\<close>

theorem featureTestimonial_failure_sets_flag:
  "isApproved t_pending = False \<and> isFeatured t_pending = False
   \<and> featured_are_approved [t_pending]
   \<and> featureTestimonial [t_pending] 7 True
       = (Inl (ValidationError ''Only approved testimonials can be featured''),
          [t_pending\<lparr>isFeatured := True\<rparr>])
   \<and> \<not> featured_are_approved (snd (featureTestimonial [t_pending] 7 True))"
  by (simp add: featureTestimonial_def t_pending_def featured_are_approved_def)

text \<open>Rejecting a featured testimonial withdraws the approval and keeps the flag.\<close>

lemma rejectTestimonial_keeps_featured:
  "featured_are_approved [t_star]
   \<and> \<not> featured_are_approved (snd (rejectTestimonial [t_star] 8 1 ''spam'' 200))"
  by (simp add: rejectTestimonial_def t_star_def t_pending_def featured_are_approved_def)

section \<open>Donation statistics\<close>

lemma getStats_completed_only:
  "getStats ds = getStats (filter (\<lambda>d. status d = Completed) ds)"
  by (simp add: getStats_def)

text \<open>
  C8. Over a store without a completed donation, \<open>getStats\<close> returns the record of
  zeros. (\<open>getStats\<close> has no failing branch: the empty aggregation result is replaced by
  that record.)
\<close>

theorem getStats_no_completed:
  assumes "filter (\<lambda>d. status d = Completed) ds = []"
  shows "getStats ds = \<lparr>totalAmount = 0, totalDonations = 0, averageAmount = 0, maxAmount = 0,
                        minAmount = 0\<rparr>"
  using assms by (simp add: getStats_def stats_group_def)

theorem getStats_no_completed_witness:
  "filter (\<lambda>d. status d = Completed) open_donations = []
   \<and> getStats open_donations
       = \<lparr>totalAmount = 0, totalDonations = 0, averageAmount = 0, maxAmount = 0, minAmount = 0\<rparr>
   \<and> getStats []
       = \<lparr>totalAmount = 0, totalDonations = 0, averageAmount = 0, maxAmount = 0, minAmount = 0\<rparr>"
proof -
  have h: "filter (\<lambda>d. status d = Completed) open_donations = []"
    by (simp add: open_donations_def gift_def)
  have e: "filter (\<lambda>d. status d = Completed) ([]::donations) = []"
    by simp
  show ?thesis
    using getStats_no_completed[OF h] getStats_no_completed[OF e] h by simp
qed

section \<open>Rating statistics\<close>

lemma round2_close: "\<bar>round2 x - x\<bar> \<le> 1 / 200"
proof -
  define s where "s = x * 100"
  define f where "f = \<lfloor>s\<rfloor>"
  define r :: rat where "r = (if s - of_int f < 1 / 2 then of_int f
          else if 1 / 2 < s - of_int f then of_int (f + 1)
          else if even f then of_int f else of_int (f + 1))"
  have b: "of_int f \<le> s" "s < of_int f + 1"
    unfolding f_def by linarith+
  have "\<bar>r - s\<bar> \<le> 1 / 2"
    unfolding r_def using b by (auto simp: abs_le_iff)
  moreover have "round2 x - x = (r - s) / 100"
    by (simp add: round2_def Let_def r_def f_def s_def diff_divide_distrib)
  ultimately have "\<bar>round2 x - x\<bar> = \<bar>r - s\<bar> / 100" "\<bar>r - s\<bar> \<le> 1 / 2"
    by (simp_all only: abs_divide abs_numeral)
  moreover have "\<bar>r - s\<bar> / 100 \<le> (1 / 2) / 100" if "\<bar>r - s\<bar> \<le> 1 / 2"
    using that by (rule divide_right_mono) simp
  ultimately show ?thesis
    by simp
qed

lemma round2_hundredths: "\<exists>k::int. round2 x * 100 = of_int k"
  unfolding round2_def Let_def by (auto simp del: of_int_add)

lemma round2_ties_to_even: "round2 (33 / 8) = 412 / 100 \<and> round2 (35 / 8) = 438 / 100"
  by code_simp

text \<open>
  C9. Let \<open>rs\<close> be the ratings of the testimonials that are approved and visible.
  \<open>getRatingStats\<close> returns their number, their mean rounded to two decimals (0 when
  there is none): a multiple of 1/100 no further than 1/200 from the mean, and for each
  star value from 5 down to 1 the number of ratings equal to it.
\<close>

theorem getRatingStats_correct:
  assumes rs: "rs = map rating (filter (\<lambda>t. isApproved t \<and> isVisible t) ts)"
  shows "totalReviews (getRatingStats ts) = length rs
       \<and> averageRating (getRatingStats ts)
           = (if rs = [] then 0 else round2 (of_nat (sum_list rs) / of_nat (length rs)))
       \<and> \<bar>averageRating (getRatingStats ts)
            - (if rs = [] then 0 else of_nat (sum_list rs) / of_nat (length rs))\<bar> \<le> 1 / 200
       \<and> (\<exists>k::int. averageRating (getRatingStats ts) * 100 = of_int k)
       \<and> ratingCounts (getRatingStats ts)
           = \<lparr>stars5 = count_list rs 5, stars4 = count_list rs 4, stars3 = count_list rs 3,
              stars2 = count_list rs 2, stars1 = count_list rs 1\<rparr>"
proof (cases "rs = []")
  case True
  then show ?thesis
    using rs by (simp add: getRatingStats_def rating_match_def rating_group_stage_def)
next
  case False
  have c: "\<And>k. length (filter (\<lambda>r. r = k) rs) = count_list rs k"
    by (induction rs) auto
  have g: "getRatingStats ts = rating_project \<lparr>rg_totalReviews = length rs,
             rg_averageRating = of_nat (sum_list rs) / of_nat (length rs),
             ratingDistribution = rs\<rparr>"
    using False rs
    by (simp add: getRatingStats_def rating_match_def rating_group_stage_def o_def)
  show ?thesis
    unfolding g
    using False round2_close[of "of_nat (sum_list rs) / of_nat (length rs)"]
      round2_hundredths[of "of_nat (sum_list rs) / of_nat (length rs)"]
    by (simp add: rating_project_def c)
qed

text \<open>The witness is the example of the specification: the published ratings of
  \<open>spec_reviews\<close> are 5, 5, 4, 3, the mean is 4.25 and the counts are 2, 1, 1, 0, 0.\<close>

theorem getRatingStats_correct_witness:
  "[5, 5, 4, 3] = map rating (filter (\<lambda>t. isApproved t \<and> isVisible t) spec_reviews)
   \<and> totalReviews (getRatingStats spec_reviews) = 4
   \<and> averageRating (getRatingStats spec_reviews) = 425 / 100
   \<and> ratingCounts (getRatingStats spec_reviews)
       = \<lparr>stars5 = 2, stars4 = 1, stars3 = 1, stars2 = 0, stars1 = 0\<rparr>"
proof -
  have h: "[5, 5, 4, 3] = map rating (filter (\<lambda>t. isApproved t \<and> isVisible t) spec_reviews)"
    by (simp add: spec_reviews_def review_of_def)
  have r: "round2 (of_nat (sum_list [5, 5, 4, 3]) / of_nat (length [5, 5, 4, 3::nat])) = 425 / 100"
    by (simp add: round2_def Let_def)
  note t = getRatingStats_correct[OF h]
  have a: "totalReviews (getRatingStats spec_reviews) = 4"
    using t by simp
  have b: "averageRating (getRatingStats spec_reviews) = 425 / 100"
    using t r by simp
  have c: "ratingCounts (getRatingStats spec_reviews)
             = \<lparr>stars5 = 2, stars4 = 1, stars3 = 1, stars2 = 0, stars1 = 0\<rparr>"
    using t by simp
  show ?thesis
    using h a b c by blast
qed

text \<open>When every rating lies between 1 and 5, as the schema demands, the five counts
  add up to the number of reviews.\<close>

lemma rating_counts_total:
  fixes rs :: "nat list"
  assumes "list_all (\<lambda>r. 1 \<le> r \<and> r \<le> 5) rs"
  shows "count_list rs 5 + count_list rs 4 + count_list rs 3 + count_list rs 2
           + count_list rs 1 = length rs"
  using assms
proof (induction rs)
  case Nil
  then show ?case by simp
next
  case (Cons r rs)
  then have "r = 1 \<or> r = 2 \<or> r = 3 \<or> r = 4 \<or> r = 5"
    by auto
  with Cons show ?case
    by auto
qed

section \<open>The leaderboard\<close>

lemma leaderboard_group_member:
  "g \<in> set (leaderboard_group dsum ds) \<Longrightarrow>
     \<exists>d rest. filter (\<lambda>x. donorEmail x = g_id g) ds = d # rest \<and> g = accumulate dsum d rest"
proof (induction dsum ds arbitrary: g rule: leaderboard_group.induct)
  case (1 dsum)
  then show ?case by simp
next
  case (2 dsum d ds)
  show ?case
  proof (cases "g = accumulate dsum d (filter (\<lambda>x. donorEmail x = donorEmail d) ds)")
    case True
    then have "g_id g = donorEmail d"
      by (simp add: accumulate_def)
    then show ?thesis
      using True by simp
  next
    case False
    with "2.prems"
    have "g \<in> set (leaderboard_group dsum (filter (\<lambda>x. donorEmail x \<noteq> donorEmail d) ds))"
      by simp
    from "2.IH"[OF this] obtain d' rest where
      f: "filter (\<lambda>x. donorEmail x = g_id g) (filter (\<lambda>x. donorEmail x \<noteq> donorEmail d) ds)
            = d' # rest"
      and g: "g = accumulate dsum d' rest"
      by blast
    have "d' \<in> set (filter (\<lambda>x. donorEmail x = g_id g)
                      (filter (\<lambda>x. donorEmail x \<noteq> donorEmail d) ds))"
      using f by simp
    then have ne: "g_id g \<noteq> donorEmail d"
      by auto
    have "filter (\<lambda>x. donorEmail x = g_id g) (d # ds)
          = filter (\<lambda>x. donorEmail x = g_id g) (filter (\<lambda>x. donorEmail x \<noteq> donorEmail d) ds)"
      using ne by (auto intro: filter_cong)
    then show ?thesis
      using f g by auto
  qed
qed

lemma leaderboard_group_ids:
  "set (map g_id (leaderboard_group dsum ds)) = donorEmail ` set ds
   \<and> distinct (map g_id (leaderboard_group dsum ds))"
  by (induction dsum ds rule: leaderboard_group.induct) (auto simp: accumulate_def)

lemma accumulate_fields:
  "g_totalAmount (accumulate dsum d rest) = dsum (map amount (d # rest))"
  "g_donationCount (accumulate dsum d rest) = length (d # rest)"
  "g_lastDonation (accumulate dsum d rest) = Max (d_createdAt ` set (d # rest))"
  "g_id (accumulate dsum d rest) = donorEmail d"
proof -
  have "fold max (map d_createdAt rest) (d_createdAt d)
          = Max (set (d_createdAt d # map d_createdAt rest))"
    by (rule Max.set_eq_fold[symmetric])
  then show "g_lastDonation (accumulate dsum d rest) = Max (d_createdAt ` set (d # rest))"
    by (simp add: accumulate_def)
qed (simp_all add: accumulate_def)

lemma counted_match: "counted ds e = filter (\<lambda>x. donorEmail x = e) (leaderboard_match ds)"
  by (auto simp: counted_def leaderboard_match_def intro: filter_cong)

lemma sorted_take_drop:
  assumes "sorted_wrt R xs" "a \<in> set (take n xs)" "b \<in> set (drop n xs)"
  shows "R a b"
proof -
  have "sorted_wrt R (take n xs @ drop n xs)"
    using assms(1) by simp
  then show ?thesis
    using assms(2,3) unfolding sorted_wrt_append by blast
qed

lemma leaderboard_sort_desc:
  "sorted_wrt (\<lambda>a b. g_totalAmount b \<le> g_totalAmount a) (leaderboard_sort gs)"
proof -
  have "sorted (map (\<lambda>g. - g_totalAmount g) (leaderboard_sort gs))"
    unfolding leaderboard_sort_def by (rule sorted_sort_key)
  then show ?thesis
    by (simp add: sorted_map)
qed

text \<open>
  What the stages before \<open>$project\<close> hand on, for every store, every \<open>n\<close> and whatever
  the store's sum of doubles is: every row stands for a donor e-mail with at least one
  completed, non-anonymous donation, and carries the store's sum of the amounts, the
  number and the latest date of exactly those donations of that e-mail; no e-mail occurs
  twice; the totals are in descending order; the length is the smaller of \<open>n\<close> and the
  number of donors with such donations; and a donor left out has a total no larger than
  any total among the rows.
\<close>

lemma leaderboard_rows_correct:
  "(\<forall>g \<in> set (leaderboard_rows dsum ds n). counted ds (g_id g) \<noteq> []
        \<and> g_totalAmount g = dsum (map amount (counted ds (g_id g)))
        \<and> g_donationCount g = length (counted ds (g_id g))
        \<and> g_lastDonation g = Max (d_createdAt ` set (counted ds (g_id g))))
   \<and> distinct (map g_id (leaderboard_rows dsum ds n))
   \<and> sorted_wrt (\<lambda>a b. g_totalAmount b \<le> g_totalAmount a) (leaderboard_rows dsum ds n)
   \<and> length (leaderboard_rows dsum ds n) = min n (card {e. counted ds e \<noteq> []})
   \<and> (\<forall>e. counted ds e \<noteq> [] \<and> e \<notin> g_id ` set (leaderboard_rows dsum ds n) \<longrightarrow>
          (\<forall>x \<in> set (leaderboard_rows dsum ds n).
             dsum (map amount (counted ds e)) \<le> g_totalAmount x))"
proof -
  define M where "M = leaderboard_match ds"
  define G where "G = leaderboard_group dsum M"
  define S where "S = leaderboard_sort G"
  have rows: "leaderboard_rows dsum ds n = take n S"
    by (simp add: leaderboard_rows_def S_def G_def M_def)
  have setS: "set S = set G"
    by (simp add: S_def leaderboard_sort_def)
  have cnt: "\<And>e. counted ds e = filter (\<lambda>x. donorEmail x = e) M"
    by (simp add: counted_match M_def)
  have member: "counted ds (g_id g) \<noteq> []
            \<and> g_totalAmount g = dsum (map amount (counted ds (g_id g)))
            \<and> g_donationCount g = length (counted ds (g_id g))
            \<and> g_lastDonation g = Max (d_createdAt ` set (counted ds (g_id g)))"
    if "g \<in> set G" for g
  proof -
    from leaderboard_group_member[OF that[unfolded G_def]] obtain d rest where
      "filter (\<lambda>x. donorEmail x = g_id g) M = d # rest" "g = accumulate dsum d rest"
      by blast
    then show ?thesis
      unfolding cnt using accumulate_fields(1,2,3)[of dsum d rest] by simp
  qed
  have ids: "set (map g_id G) = {e. counted ds e \<noteq> []}"
  proof -
    have "set (map g_id G) = donorEmail ` set M"
      unfolding G_def using leaderboard_group_ids[of dsum M] by blast
    also have "\<dots> = {e. counted ds e \<noteq> []}"
      unfolding cnt by (auto simp: filter_empty_conv)
    finally show ?thesis .
  qed
  have dG: "distinct (map g_id G)"
    unfolding G_def using leaderboard_group_ids[of dsum M] by blast
  have dS: "distinct (map g_id S)"
    unfolding S_def leaderboard_sort_def using dG by (simp add: distinct_map)
  have sortedS: "sorted_wrt (\<lambda>a b. g_totalAmount b \<le> g_totalAmount a) S"
    unfolding S_def by (rule leaderboard_sort_desc)
  have p1: "\<forall>g \<in> set (take n S). counted ds (g_id g) \<noteq> []
        \<and> g_totalAmount g = dsum (map amount (counted ds (g_id g)))
        \<and> g_donationCount g = length (counted ds (g_id g))
        \<and> g_lastDonation g = Max (d_createdAt ` set (counted ds (g_id g)))"
    using member setS by (auto dest: in_set_takeD)
  have p2: "distinct (map g_id (take n S))"
    using dS by (simp add: take_map[symmetric])
  have p3: "sorted_wrt (\<lambda>a b. g_totalAmount b \<le> g_totalAmount a) (take n S)"
    using sortedS by (rule sorted_wrt_take)
  have p4: "length (take n S) = min n (card {e. counted ds e \<noteq> []})"
  proof -
    have "card (set (map g_id G)) = length (map g_id G)"
      using dG by (rule distinct_card)
    then have "card {e. counted ds e \<noteq> []} = length G"
      unfolding ids by simp
    then show ?thesis
      by (simp add: S_def leaderboard_sort_def min.commute)
  qed
  have p5: "\<forall>e. counted ds e \<noteq> [] \<and> e \<notin> g_id ` set (take n S) \<longrightarrow>
          (\<forall>x \<in> set (take n S). dsum (map amount (counted ds e)) \<le> g_totalAmount x)"
  proof (intro allI impI ballI)
    fix e x
    assume a: "counted ds e \<noteq> [] \<and> e \<notin> g_id ` set (take n S)" and x: "x \<in> set (take n S)"
    from a have "e \<in> set (map g_id G)"
      unfolding ids by simp
    then obtain g where g: "g \<in> set S" "g_id g = e"
      using setS by auto
    have "g \<notin> set (take n S)"
      using a g(2) by auto
    moreover have "set S = set (take n S) \<union> set (drop n S)"
      by (metis append_take_drop_id set_append)
    ultimately have gd: "g \<in> set (drop n S)"
      using g(1) by blast
    have "g_totalAmount g \<le> g_totalAmount x"
      using sorted_take_drop[OF sortedS x gd] .
    moreover have "g_totalAmount g = dsum (map amount (counted ds e))"
      using member[of g] g setS by simp
    ultimately show "dsum (map amount (counted ds e)) \<le> g_totalAmount x"
      by simp
  qed
  show ?thesis
    unfolding rows using p1 p2 p3 p4 p5 by blast
qed

text \<open>The expression of the source does not parse, so the call is refused for every
  store and every limit.\<close>

lemma formattedTotal_refused:
  "parse_operand formattedTotal_expr
     = Some (MongoServerError 16872 '''$' by itself is not a valid FieldPath'')"
  by (simp add: formattedTotal_expr_def)

lemma getLeaderboard_always_refused:
  "\<exists>err. getLeaderboard dsum ds limit_arg = Inl err"
  by (simp add: getLeaderboard_def formattedTotal_refused Let_def)

lemma getLeaderboard_limit:
  "limit \<le> 0 \<Longrightarrow>
     getLeaderboard dsum ds (Some limit)
       = Inl (LibError ''MongoServerError'' ''the limit must be positive'')"
  "getLeaderboard dsum ds None = getLeaderboard dsum ds (Some 10)"
  by (simp_all add: getLeaderboard_def)

text \<open>
  C6. On the example of the specification, A (50, completed), B (100, pending) and
  C (30, completed, anonymous) with limit 10, the stages up to \<open>$limit\<close> hand on the one
  row of A, whatever the store's sum of doubles is, but the call does not return
  a leaderboard: the store refuses the pipeline for the bare \<open>$\<close> in the \<open>$concat\<close> of
  \<open>$project\<close>, and \<open>getLeaderboard\<close> fails with that error.
\<close>

theorem getLeaderboard_refused_on_spec_example:
  "\<forall>dsum. leaderboard_rows dsum spec_donations 10
            = [\<lparr>g_id = ''a@x.org'', g_donorName = ''A'', g_totalAmount = dsum [50],
                g_donationCount = 1, g_lastDonation = 100\<rparr>]
          \<and> getLeaderboard dsum spec_donations (Some 10)
            = Inl (MongoServerError 16872 '''$' by itself is not a valid FieldPath'')"
proof
  fix dsum :: "rat list \<Rightarrow> rat"
  have rows: "leaderboard_rows dsum spec_donations 10
            = [\<lparr>g_id = ''a@x.org'', g_donorName = ''A'', g_totalAmount = dsum [50],
                g_donationCount = 1, g_lastDonation = 100\<rparr>]"
    by (simp add: leaderboard_rows_def leaderboard_match_def leaderboard_sort_def
        accumulate_def spec_donations_def gift_def)
  have call: "getLeaderboard dsum spec_donations (Some 10)
            = Inl (MongoServerError 16872 '''$' by itself is not a valid FieldPath'')"
    by (simp add: getLeaderboard_def formattedTotal_refused)
  show "leaderboard_rows dsum spec_donations 10
            = [\<lparr>g_id = ''a@x.org'', g_donorName = ''A'', g_totalAmount = dsum [50],
                g_donationCount = 1, g_lastDonation = 100\<rparr>]
          \<and> getLeaderboard dsum spec_donations (Some 10)
            = Inl (MongoServerError 16872 '''$' by itself is not a valid FieldPath'')"
    using rows call by simp
qed

end
